theory Spec2Isabelle
  imports Main "HOL-Library.Sublist" "HOL-Library.Word"
begin

section \<open>pjsekai-overlay: chart retrieval (pkg/pjsekaioverlay/chart.go)\<close>

text \<open>
  A shallow embedding of \<^verbatim>\<open>chart.go\<close>. The five exported functions
  \<^verbatim>\<open>FetchChart\<close>, \<^verbatim>\<open>DetectChartSource\<close>, \<^verbatim>\<open>FetchLevelData\<close>,
  \<^verbatim>\<open>DownloadCover\<close> and \<^verbatim>\<open>DownloadBackground\<close> are translated line by line.
  A Go result \<^verbatim>\<open>(v, err)\<close> is a pair whose second component is an
  \<open>error option\<close> (\<open>None\<close> is \<^verbatim>\<open>nil\<close>). Everything the functions do to the outside
  is explicit: the state of the outside world (the requests issued so far, the
  directories and the files) is passed in and returned; what the standard library and
  the remote hosts compute is a parameter, the record \<open>env\<close>. The deferred calls
  (\<^verbatim>\<open>resp.Body.Close()\<close>, \<^verbatim>\<open>file.Close()\<close>) change nothing that the model
  observes and are left out.
\<close>

subsection \<open>Data\<close>

text \<open>\<^verbatim>\<open>type Source struct { Id string; Name string; Color int; Host string }\<close>\<close>

record Source =
  Id :: string
  Name :: string
  Color :: int
  Host :: string

text \<open>The zero value of \<^verbatim>\<open>Source\<close>, as \<^verbatim>\<open>var source Source\<close> gives it.\<close>

definition Source_zero :: Source where
  "Source_zero = \<lparr>Id = [], Name = [], Color = 0, Host = []\<rparr>"

text \<open>
  The texts of the underlying errors (\<^verbatim>\<open>%s\<close> of an \<^verbatim>\<open>error\<close>) are strings.
  The errors the package builds itself are one constructor for each message of the
  source; the Japanese half of a message is left out of the name. The argument is what
  the format verb prints.
  \<^item> \<open>CouldNotConnect\<close>: "Could not connect to server." (\<^verbatim>\<open>FetchChart\<close>, line 35)
  \<^item> \<open>UnableToSearchChart\<close>: "Unable to search chart.", whose Japanese half reads
    "the chart was not found" (line 40)
  \<^item> \<open>UnknownChartSource\<close>: "unknown chart source" (line 72)
  \<^item> \<open>UrlParsingFailed e\<close>: "URL parsing failed. [e]" (lines 81, 114)
  \<^item> \<open>CouldNotConnectErr e\<close>: "Could not connect to server. [e]" with the
    transport's error (lines 87, 166)
  \<^item> \<open>CouldNotConnectJa e\<close>: the Japanese sentence for "could not connect to the
    server" alone, with the transport's error in parentheses (\<^verbatim>\<open>DownloadCover\<close>,
    line 120)
  \<^item> \<open>CouldNotConnectStatus n\<close>: "Could not connect to server. [n]" with the
    HTTP status (\<^verbatim>\<open>DownloadCover\<close>, line 126)
  \<^item> \<open>NoChartDataFound n\<close>: "No chart data found. [n]" (line 92)
  \<^item> \<open>LoadingChartDataFailed e\<close>: "Loading chart data failed. [e]" (lines 98, 104)
  \<^item> \<open>LoadingJacketFailed e\<close>: "Loading jacket failed. [e]" (line 133)
  \<^item> \<open>FailedToCreateFile e\<close>: "Failed to create file. [e]" (lines 145, 178)
  \<^item> \<open>FailedToWriteFile e\<close>: "Failed to write file. [e]" (lines 153, 186)
  \<^item> \<open>BackgroundNotFound n\<close>: "Background not found. [n]" (line 172)
\<close>

type_synonym errtext = string

datatype error =
    CouldNotConnect
  | UnableToSearchChart
  | UnknownChartSource
  | UrlParsingFailed errtext
  | CouldNotConnectErr errtext
  | CouldNotConnectJa errtext
  | CouldNotConnectStatus int
  | NoChartDataFound int
  | LoadingChartDataFailed errtext
  | LoadingJacketFailed errtext
  | FailedToCreateFile errtext
  | FailedToWriteFile errtext
  | BackgroundNotFound int

subsection \<open>Source resolution\<close>

text \<open>\<^verbatim>\<open>strings.HasPrefix(s, prefix)\<close>:
  \<^verbatim>\<open>len(s) >= len(prefix) && s[:len(prefix)] == prefix\<close>.\<close>

definition strings_HasPrefix :: "string \<Rightarrow> string \<Rightarrow> bool" where
  "strings_HasPrefix s p = (length p \<le> length s \<and> take (length p) s = p)"

text \<open>\<^verbatim>\<open>DetectChartSource\<close> (lines 49 to 75). The variable \<^verbatim>\<open>source\<close> starts
  as the zero value; the final test is on its \<^verbatim>\<open>Id\<close>, as in the source.\<close>

definition DetectChartSource :: "string \<Rightarrow> Source \<times> error option" where
  "DetectChartSource chartId =
     (let source =
        (if strings_HasPrefix chartId ''ptlv-'' then
           \<lparr>Id = ''potato_leaves'', Name = ''Potato Leaves'', Color = 0x88cb7f,
            Host = ''ptlv.sevenc7c.com''\<rparr>
         else if strings_HasPrefix chartId ''chcy-'' then
           \<lparr>Id = ''chart_cyanvas'', Name = ''Chart Cyanvas'', Color = 0x83ccd2,
            Host = ''cc.sevenc7c.com''\<rparr>
         else Source_zero)
      in if Id source = [] then
           (\<lparr>Id = chartId, Name = [], Color = 0, Host = []\<rparr>, Some UnknownChartSource)
         else (source, None))"

subsection \<open>The outside world\<close>

text \<open>
  Bytes are 8-bit words. A path is the sequence of its components, as the operating
  system resolves it: \<^verbatim>\<open>path.Join(d, name)\<close> with a plain file name appends one
  component, and the empty sequence is the directory every path starts from, which
  always exists.
\<close>

type_synonym bytes = "8 word list"

type_synonym path = "string list"

definition path_Join :: "path \<Rightarrow> string \<Rightarrow> path" where
  "path_Join d name = d @ [name]"

text \<open>
  A stream that is read to its end (\<^verbatim>\<open>io.Reader\<close>): the bytes it delivers, and
  the error that ends it when it does not end with \<^verbatim>\<open>io.EOF\<close>.
\<close>

record body =
  Content :: bytes
  ReadErr :: "errtext option"

text \<open>\<^verbatim>\<open>http.Response\<close>: the fields the package reads.\<close>

record response =
  StatusCode :: int
  Body :: body

text \<open>
  The state the package can change: the URLs of the GET requests issued so far, the
  directories with their permission bits, the regular files with their contents, and
  the number of bytes the device still accepts.
\<close>

record world =
  requests :: "string list"
  dirs :: "path \<rightharpoonup> nat"
  files :: "path \<rightharpoonup> bytes"
  free :: nat

definition isdir :: "world \<Rightarrow> path \<Rightarrow> bool" where
  "isdir w p = (if p = [] then True else dirs w p \<noteq> None)"

definition isfile :: "world \<Rightarrow> path \<Rightarrow> bool" where
  "isfile w p = (files w p \<noteq> None)"

text \<open>
  \<^verbatim>\<open>os.MkdirAll(path, perm)\<close>: creates the directory and every missing parent with
  the permission bits \<open>perm\<close>, leaves existing directories as they are, and fails,
  creating nothing, when a component of the path is a regular file.
\<close>

definition os_MkdirAll :: "world \<Rightarrow> path \<Rightarrow> nat \<Rightarrow> world \<times> errtext option" where
  "os_MkdirAll w p perm =
     (if list_ex (isfile w) (prefixes p) then (w, Some ''not a directory'')
      else (w\<lparr>dirs := (\<lambda>q. if q \<noteq> [] \<and> prefix q p \<and> dirs w q = None then Some perm
                             else dirs w q)\<rparr>, None))"

text \<open>
  \<^verbatim>\<open>os.Create(name)\<close>: creates the file or truncates it. It fails when the name
  is a directory or when the directory that holds it does not exist. The open file is
  referred to by its path.
\<close>

definition os_Create :: "world \<Rightarrow> path \<Rightarrow> world \<times> errtext option" where
  "os_Create w p =
     (if isdir w p then (w, Some ''is a directory'')
      else if isdir w (butlast p) then (w\<lparr>files := (files w)(p \<mapsto> [])\<rparr>, None)
      else (w, Some ''no such file or directory''))"

text \<open>
  \<^verbatim>\<open>(*os.File).Write\<close>, for a file opened by \<^verbatim>\<open>os.Create\<close>: appends the bytes;
  when the device has less room than that, it appends what fits and fails.
\<close>

definition file_Write :: "world \<Rightarrow> path \<Rightarrow> bytes \<Rightarrow> world \<times> errtext option" where
  "file_Write w p bs =
     (let old = (case files w p of None \<Rightarrow> [] | Some c \<Rightarrow> c) in
      if length bs \<le> free w then
        (w\<lparr>files := (files w)(p \<mapsto> old @ bs), free := free w - length bs\<rparr>, None)
      else
        (w\<lparr>files := (files w)(p \<mapsto> old @ take (free w) bs), free := 0\<rparr>,
         Some ''no space left on device''))"

text \<open>
  \<^verbatim>\<open>io.Copy(dst, src)\<close> into an open file: writes what the stream delivers; its
  error is the write error, or else the error that ended the stream.
\<close>

definition io_Copy :: "world \<Rightarrow> path \<Rightarrow> body \<Rightarrow> world \<times> errtext option" where
  "io_Copy w p src =
     (case file_Write w p (Content src) of
        (w', Some err) \<Rightarrow> (w', Some err)
      | (w', None) \<Rightarrow> (w', ReadErr src))"

subsection \<open>Metadata and images\<close>

text \<open>
  Modelled from the spec: the package \<^verbatim>\<open>sonolus\<close> (the types \<^verbatim>\<open>LevelInfo\<close>,
  \<^verbatim>\<open>LevelData\<close>, \<^verbatim>\<open>InfoResponse\<close> and the function \<^verbatim>\<open>JoinUrl\<close>) is not among
  the sources. \<open>LevelInfo\<close> has the fields \<^verbatim>\<open>chart.go\<close> reads: a relative URL of
  the level data, a relative URL of the cover, and a background entry whose record
  holds a relative URL of the background image. \<open>LevelData\<close> is a type parameter.
\<close>

record SRL =
  Url :: string

record BackgroundItem =
  Image :: SRL

record UseItem =
  Item :: BackgroundItem

record LevelInfo =
  Data :: SRL
  Cover :: SRL
  UseBackground :: UseItem

definition LevelInfo_zero :: LevelInfo where
  "LevelInfo_zero =
     \<lparr>Data = \<lparr>Url = []\<rparr>, Cover = \<lparr>Url = []\<rparr>,
      UseBackground = \<lparr>Item = \<lparr>Image = \<lparr>Url = []\<rparr>\<rparr>\<rparr>\<rparr>"

text \<open>\<^verbatim>\<open>image.Point\<close>, \<^verbatim>\<open>image.Rectangle\<close>, \<^verbatim>\<open>image.Rect\<close>, \<^verbatim>\<open>Dx\<close>, \<^verbatim>\<open>Dy\<close>.\<close>

record Point =
  X :: int
  Y :: int

record Rectangle =
  Min :: Point
  Max :: Point

definition image_Rect :: "int \<Rightarrow> int \<Rightarrow> int \<Rightarrow> int \<Rightarrow> Rectangle" where
  "image_Rect x0 y0 x1 y1 =
     \<lparr>Min = \<lparr>X = (if x0 > x1 then x1 else x0), Y = (if y0 > y1 then y1 else y0)\<rparr>,
      Max = \<lparr>X = (if x0 > x1 then x0 else x1), Y = (if y0 > y1 then y0 else y1)\<rparr>\<rparr>"

definition Dx :: "Rectangle \<Rightarrow> int" where
  "Dx r = X (Max r) - X (Min r)"

definition Dy :: "Rectangle \<Rightarrow> int" where
  "Dy r = Y (Max r) - Y (Min r)"

text \<open>
  \<^verbatim>\<open>image.RGBA\<close>: the pixels, by coordinate, and the bounds. \<^verbatim>\<open>image.NewRGBA\<close>
  gives an image whose pixels are all zero (transparent).
\<close>

type_synonym rgba = "8 word \<times> 8 word \<times> 8 word \<times> 8 word"

record RGBA =
  Pix :: "int \<times> int \<Rightarrow> rgba"
  Rect :: Rectangle

definition image_NewRGBA :: "Rectangle \<Rightarrow> RGBA" where
  "image_NewRGBA r = \<lparr>Pix = (\<lambda>_. (0, 0, 0, 0)), Rect = r\<rparr>"

text \<open>\<^verbatim>\<open>draw.Op\<close>.\<close>

datatype Op = Over | Src

subsection \<open>What the libraries and the hosts compute\<close>

text \<open>
  The parameters of the model. \<open>'i\<close> is the type of decoded images
  (\<^verbatim>\<open>image.Image\<close>), \<open>'d\<close> is \<^verbatim>\<open>sonolus.LevelData\<close>.
  \<^item> \<open>JoinUrl base rel\<close>: both results of \<^verbatim>\<open>sonolus.JoinUrl\<close>, the string and the
    error.
  \<^item> \<open>http_RoundTrip url\<close>: what a GET of \<open>url\<close> yields, a transport error or a
    response.
  \<^item> \<open>json_Decode_InfoResponse b\<close>: \<^verbatim>\<open>json.NewDecoder(b).Decode(&chart)\<close> for a
    zero \<^verbatim>\<open>chart\<close>: the field \<^verbatim>\<open>chart.Item\<close> afterwards, and the error.
  \<^item> \<open>gzip_NewReader b\<close>: the decompressed stream, or the error of opening it.
  \<^item> \<open>json_Decode_LevelData b\<close>: \<^verbatim>\<open>json.NewDecoder(b).Decode(&data)\<close>.
  \<^item> \<open>image_Decode b\<close>: \<^verbatim>\<open>image.Decode\<close> with the PNG and JPEG decoders
    registered; \<open>Bounds\<close> of the decoded image.
  \<^item> \<open>ApproxBiLinear_Scale dst dr src sr op\<close>: the pixels of \<open>dst\<close> after
    \<^verbatim>\<open>draw.ApproxBiLinear.Scale(dst, dr, src, sr, op, nil)\<close>, which writes pixels of
    \<open>dst\<close> and nothing else.
  \<^item> \<open>png_Encode m\<close>: the bytes \<^verbatim>\<open>png.Encode\<close> produces for \<open>m\<close>, or its error.
\<close>

record ('i, 'd) env =
  JoinUrl :: "string \<Rightarrow> string \<Rightarrow> string \<times> errtext option"
  http_RoundTrip :: "string \<Rightarrow> errtext + response"
  json_Decode_InfoResponse :: "body \<Rightarrow> LevelInfo \<times> errtext option"
  gzip_NewReader :: "body \<Rightarrow> errtext + body"
  json_Decode_LevelData :: "body \<Rightarrow> errtext + 'd"
  LevelData_zero :: 'd
  image_Decode :: "body \<Rightarrow> errtext + 'i"
  Bounds :: "'i \<Rightarrow> Rectangle"
  ApproxBiLinear_Scale :: "RGBA \<Rightarrow> Rectangle \<Rightarrow> 'i \<Rightarrow> Rectangle \<Rightarrow> Op \<Rightarrow> int \<times> int \<Rightarrow> rgba"
  png_Encode :: "RGBA \<Rightarrow> errtext + bytes"

text \<open>\<^verbatim>\<open>http.Get(url)\<close>: records the request and yields what the host answers.\<close>

definition http_Get :: "('i, 'd) env \<Rightarrow> world \<Rightarrow> string \<Rightarrow> world \<times> (errtext + response)" where
  "http_Get env w url = (w\<lparr>requests := requests w @ [url]\<rparr>, http_RoundTrip env url)"

text \<open>\<^verbatim>\<open>png.Encode(file, m)\<close>: encodes, and writes the bytes to the open file.\<close>

definition png_Encode_to :: "('i, 'd) env \<Rightarrow> world \<Rightarrow> path \<Rightarrow> RGBA \<Rightarrow> world \<times> errtext option" where
  "png_Encode_to env w file m =
     (case png_Encode env m of
        Inl err \<Rightarrow> (w, Some err)
      | Inr bs \<Rightarrow> file_Write w file bs)"

subsection \<open>The four operations that use the network\<close>

text \<open>\<^verbatim>\<open>FetchChart\<close> (lines 29 to 47). The error of \<^verbatim>\<open>Decode\<close> is not read.\<close>

definition FetchChart ::
  "('i, 'd) env \<Rightarrow> world \<Rightarrow> Source \<Rightarrow> string \<Rightarrow> world \<times> LevelInfo \<times> error option" where
  "FetchChart env w source chartId =
     (let url = ''https://'' @ Host source @ ''/sonolus/levels/'' @ chartId in
      case http_Get env w url of
        (w1, Inl err) \<Rightarrow> (w1, LevelInfo_zero, Some CouldNotConnect)
      | (w1, Inr resp) \<Rightarrow>
          if StatusCode resp \<noteq> 200 then (w1, LevelInfo_zero, Some UnableToSearchChart)
          else (case json_Decode_InfoResponse env (Body resp) of
                  (chart_Item, decode_err) \<Rightarrow> (w1, chart_Item, None)))"

text \<open>\<^verbatim>\<open>FetchLevelData\<close> (lines 77 to 108).\<close>

definition FetchLevelData ::
  "('i, 'd) env \<Rightarrow> world \<Rightarrow> Source \<Rightarrow> LevelInfo \<Rightarrow> world \<times> 'd \<times> error option" where
  "FetchLevelData env w source level =
     (case JoinUrl env (''https://'' @ Host source) (Url (Data level)) of
        (url, Some err) \<Rightarrow> (w, LevelData_zero env, Some (UrlParsingFailed err))
      | (url, None) \<Rightarrow>
          (case http_Get env w url of
             (w1, Inl err) \<Rightarrow> (w1, LevelData_zero env, Some (CouldNotConnectErr err))
           | (w1, Inr resp) \<Rightarrow>
               if StatusCode resp \<noteq> 200 then
                 (w1, LevelData_zero env, Some (NoChartDataFound (StatusCode resp)))
               else
                 (case gzip_NewReader env (Body resp) of
                    Inl err \<Rightarrow> (w1, LevelData_zero env, Some (LoadingChartDataFailed err))
                  | Inr gzipReader \<Rightarrow>
                      (case json_Decode_LevelData env gzipReader of
                         Inl err \<Rightarrow>
                           (w1, LevelData_zero env, Some (LoadingChartDataFailed err))
                       | Inr data \<Rightarrow> (w1, data, None)))))"

text \<open>
  \<^verbatim>\<open>DownloadCover\<close> (lines 110 to 157). The error of \<^verbatim>\<open>os.MkdirAll\<close> is not
  read. \<open>493\<close> is \<^verbatim>\<open>0755\<close>.
\<close>

definition DownloadCover ::
  "('i, 'd) env \<Rightarrow> world \<Rightarrow> Source \<Rightarrow> LevelInfo \<Rightarrow> path \<Rightarrow> world \<times> error option" where
  "DownloadCover env w source level destPath =
     (case JoinUrl env (''https://'' @ Host source) (Url (Cover level)) of
        (url, Some err) \<Rightarrow> (w, Some (UrlParsingFailed err))
      | (url, None) \<Rightarrow>
          (case http_Get env w url of
             (w1, Inl err) \<Rightarrow> (w1, Some (CouldNotConnectJa err))
           | (w1, Inr resp) \<Rightarrow>
               if StatusCode resp \<noteq> 200 then
                 (w1, Some (CouldNotConnectStatus (StatusCode resp)))
               else
                 (case os_MkdirAll w1 destPath 493 of
                    (w2, mkdir_err) \<Rightarrow>
                      (case image_Decode env (Body resp) of
                         Inl err \<Rightarrow> (w2, Some (LoadingJacketFailed err))
                       | Inr imageData \<Rightarrow>
                           (let newImage = image_NewRGBA (image_Rect 0 0 512 512);
                                newImage = newImage\<lparr>Pix :=
                                  ApproxBiLinear_Scale env newImage (Rect newImage)
                                    imageData (Bounds env imageData) Over\<rparr>;
                                file = path_Join destPath ''cover.png''
                            in case os_Create w2 file of
                                 (w3, Some err) \<Rightarrow> (w3, Some (FailedToCreateFile err))
                               | (w3, None) \<Rightarrow>
                                   (case png_Encode_to env w3 file newImage of
                                      (w4, Some err) \<Rightarrow> (w4, Some (FailedToWriteFile err))
                                    | (w4, None) \<Rightarrow> (w4, None)))))))"

text \<open>
  \<^verbatim>\<open>DownloadBackground\<close> (lines 158 to 190). The variable \<^verbatim>\<open>err\<close> is assigned
  by \<^verbatim>\<open>JoinUrl\<close> and assigned again by \<^verbatim>\<open>http.Get\<close> before it is read
  (\<open>join_err\<close> below is never used). After \<^verbatim>\<open>os.Create\<close> it holds the error of
  \<^verbatim>\<open>os.Create\<close>; \<^verbatim>\<open>io.Copy\<close> does not assign it, and the test of line 185 reads
  it again.
\<close>

definition DownloadBackground ::
  "('i, 'd) env \<Rightarrow> world \<Rightarrow> Source \<Rightarrow> LevelInfo \<Rightarrow> path \<Rightarrow> world \<times> error option" where
  "DownloadBackground env w source level destPath =
     (case JoinUrl env (''https://'' @ Host source)
             (Url (Image (Item (UseBackground level)))) of
        (backgroundUrl, join_err) \<Rightarrow>
          (case http_Get env w backgroundUrl of
             (w1, Inl err) \<Rightarrow> (w1, Some (CouldNotConnectErr err))
           | (w1, Inr resp) \<Rightarrow>
               if StatusCode resp \<noteq> 200 then
                 (w1, Some (BackgroundNotFound (StatusCode resp)))
               else
                 (let file = path_Join destPath ''background.png'' in
                  case os_Create w1 file of
                    (w2, err) \<Rightarrow>
                      (case err of
                         Some e \<Rightarrow> (w2, Some (FailedToCreateFile e))
                       | None \<Rightarrow>
                           (case io_Copy w2 file (Body resp) of
                              (w3, copy_err) \<Rightarrow>
                                (case err of
                                   Some e \<Rightarrow> (w3, Some (FailedToWriteFile e))
                                 | None \<Rightarrow> (w3, None)))))))"

subsection \<open>Kinds of errors\<close>

text \<open>
  The errors whose message says that something was not found: the chart (line 40), the
  chart data (line 92), the background (line 172).
\<close>

definition is_NotFound :: "error \<Rightarrow> bool" where
  "is_NotFound e =
     (case e of
        UnableToSearchChart \<Rightarrow> True
      | NoChartDataFound n \<Rightarrow> True
      | BackgroundNotFound n \<Rightarrow> True
      | _ \<Rightarrow> False)"

subsection \<open>A stub host, stub codecs and a small file system\<close>

text \<open>
  A concrete environment on which the operations are evaluated. The stub host serves
  a metadata document, a page that is not JSON, a compressed level, a cover of
  100 by 50 pixels, one of 1000 by 1000 pixels and a background of three bytes; any other path on the host is a
  404, and any other host cannot be reached. The stub \<open>JoinUrl\<close> rejects a relative
  URL with a percent sign and returns the empty string with its error. The stub gzip
  format is the two magic bytes followed by the payload; the stub JSON of a level is
  an opening brace followed by the level's bytes; the stub image format is the width
  and the height in two bytes each; the stub PNG is the signature followed by the
  width and the height in two bytes each.
\<close>

definition stub_level :: LevelInfo where
  "stub_level =
     \<lparr>Data = \<lparr>Url = ''/data.gz''\<rparr>, Cover = \<lparr>Url = ''/cover.png''\<rparr>,
      UseBackground = \<lparr>Item = \<lparr>Image = \<lparr>Url = ''/bg.png''\<rparr>\<rparr>\<rparr>\<rparr>"

definition stub_JoinUrl :: "string \<Rightarrow> string \<Rightarrow> string \<times> errtext option" where
  "stub_JoinUrl base rel =
     (if CHR ''%'' \<in> set rel then ([], Some ''invalid URL escape'') else (base @ rel, None))"

definition stub_RoundTrip :: "string \<Rightarrow> errtext + response" where
  "stub_RoundTrip url =
     (if url = ''https://ptlv.sevenc7c.com/sonolus/levels/ptlv-abc123'' then
        Inr \<lparr>StatusCode = 200, Body = \<lparr>Content = [123, 125], ReadErr = None\<rparr>\<rparr>
      else if url = ''https://ptlv.sevenc7c.com/sonolus/levels/ptlv-html'' then
        Inr \<lparr>StatusCode = 200, Body = \<lparr>Content = [60, 104, 49, 62], ReadErr = None\<rparr>\<rparr>
      else if url = ''https://ptlv.sevenc7c.com/data.gz'' then
        Inr \<lparr>StatusCode = 200, Body = \<lparr>Content = [31, 139, 123, 7, 9], ReadErr = None\<rparr>\<rparr>
      else if url = ''https://ptlv.sevenc7c.com/cover.png'' then
        Inr \<lparr>StatusCode = 200, Body = \<lparr>Content = [0, 100, 0, 50], ReadErr = None\<rparr>\<rparr>
      else if url = ''https://ptlv.sevenc7c.com/big.png'' then
        Inr \<lparr>StatusCode = 200, Body = \<lparr>Content = [3, 232, 3, 232], ReadErr = None\<rparr>\<rparr>
      else if url = ''https://ptlv.sevenc7c.com/bg.png'' then
        Inr \<lparr>StatusCode = 200, Body = \<lparr>Content = [1, 2, 3], ReadErr = None\<rparr>\<rparr>
      else if strings_HasPrefix url ''https://ptlv.sevenc7c.com/'' then
        Inr \<lparr>StatusCode = 404, Body = \<lparr>Content = [110, 111], ReadErr = None\<rparr>\<rparr>
      else Inl ''no such host'')"

definition stub_json_Decode_InfoResponse :: "body \<Rightarrow> LevelInfo \<times> errtext option" where
  "stub_json_Decode_InfoResponse b =
     (if Content b = [123, 125] then (stub_level, None)
      else (LevelInfo_zero, Some ''invalid character''))"

definition stub_gzip :: "bytes \<Rightarrow> bytes" where
  "stub_gzip bs = 31 # 139 # bs"

definition stub_gzip_NewReader :: "body \<Rightarrow> errtext + body" where
  "stub_gzip_NewReader b =
     (case Content b of
        b0 # b1 # rest \<Rightarrow>
          if b0 = 31 \<and> b1 = 139 then Inr (b\<lparr>Content := rest\<rparr>) else Inl ''invalid header''
      | _ \<Rightarrow> Inl ''unexpected EOF'')"

definition stub_json_Marshal :: "bytes \<Rightarrow> bytes" where
  "stub_json_Marshal d = 123 # d"

definition stub_json_Decode_LevelData :: "body \<Rightarrow> errtext + bytes" where
  "stub_json_Decode_LevelData b =
     (case Content b of
        [] \<Rightarrow> Inl ''EOF''
      | b0 # rest \<Rightarrow> if b0 = 123 then Inr rest else Inl ''invalid character'')"

definition stub_image_Decode :: "body \<Rightarrow> errtext + RGBA" where
  "stub_image_Decode b =
     (case Content b of
        [w1, w0, h1, h0] \<Rightarrow>
          Inr (image_NewRGBA
                 (image_Rect 0 0 (uint w1 * 256 + uint w0) (uint h1 * 256 + uint h0)))
      | _ \<Rightarrow> Inl ''unknown format'')"

definition stub_png_Encode :: "RGBA \<Rightarrow> errtext + bytes" where
  "stub_png_Encode m =
     Inr [137, 80, 78, 71,
          word_of_int (Dx (Rect m) div 256), word_of_int (Dx (Rect m) mod 256),
          word_of_int (Dy (Rect m) div 256), word_of_int (Dy (Rect m) mod 256)]"

definition stub_env :: "(RGBA, bytes) env" where
  "stub_env =
     \<lparr>JoinUrl = stub_JoinUrl, http_RoundTrip = stub_RoundTrip,
      json_Decode_InfoResponse = stub_json_Decode_InfoResponse,
      gzip_NewReader = stub_gzip_NewReader,
      json_Decode_LevelData = stub_json_Decode_LevelData,
      LevelData_zero = [],
      image_Decode = stub_image_Decode, Bounds = Rect,
      ApproxBiLinear_Scale = (\<lambda>dst dr src sr op. Pix dst),
      png_Encode = stub_png_Encode\<rparr>"

definition ptlv :: Source where
  "ptlv = \<lparr>Id = ''potato_leaves'', Name = ''Potato Leaves'', Color = 0x88cb7f,
            Host = ''ptlv.sevenc7c.com''\<rparr>"

text \<open>A world with no directory and no file, and one where the directory \<open>out\<close> exists.\<close>

definition world0 :: world where
  "world0 = \<lparr>requests = [], dirs = Map.empty, files = Map.empty, free = 1000\<rparr>"

definition world_out :: world where
  "world_out = \<lparr>requests = [], dirs = [[''out''] \<mapsto> 493], files = Map.empty, free = 1000\<rparr>"

section \<open>What each operation does on each path\<close>

text \<open>A request that is answered with a status other than 200, or not answered.\<close>

lemma FetchChart_status:
  assumes "http_RoundTrip env (''https://'' @ Host source @ ''/sonolus/levels/'' @ chartId) = Inr resp"
      and "StatusCode resp \<noteq> 200"
  shows "FetchChart env w source chartId =
           (w\<lparr>requests := requests w @ [''https://'' @ Host source @ ''/sonolus/levels/'' @ chartId]\<rparr>,
            LevelInfo_zero, Some UnableToSearchChart)"
  using assms by (simp add: FetchChart_def http_Get_def Let_def)

lemma FetchChart_transport:
  assumes "http_RoundTrip env (''https://'' @ Host source @ ''/sonolus/levels/'' @ chartId) = Inl e"
  shows "FetchChart env w source chartId =
           (w\<lparr>requests := requests w @ [''https://'' @ Host source @ ''/sonolus/levels/'' @ chartId]\<rparr>,
            LevelInfo_zero, Some CouldNotConnect)"
  using assms by (simp add: FetchChart_def http_Get_def Let_def)

lemma FetchLevelData_status:
  assumes "JoinUrl env (''https://'' @ Host source) (Url (Data level)) = (url, None)"
      and "http_RoundTrip env url = Inr resp"
      and "StatusCode resp \<noteq> 200"
  shows "FetchLevelData env w source level =
           (w\<lparr>requests := requests w @ [url]\<rparr>, LevelData_zero env,
            Some (NoChartDataFound (StatusCode resp)))"
  using assms by (simp add: FetchLevelData_def http_Get_def)

lemma FetchLevelData_transport:
  assumes "JoinUrl env (''https://'' @ Host source) (Url (Data level)) = (url, None)"
      and "http_RoundTrip env url = Inl e"
  shows "FetchLevelData env w source level =
           (w\<lparr>requests := requests w @ [url]\<rparr>, LevelData_zero env,
            Some (CouldNotConnectErr e))"
  using assms by (simp add: FetchLevelData_def http_Get_def)

lemma DownloadCover_status:
  assumes "JoinUrl env (''https://'' @ Host source) (Url (Cover level)) = (url, None)"
      and "http_RoundTrip env url = Inr resp"
      and "StatusCode resp \<noteq> 200"
  shows "DownloadCover env w source level destPath =
           (w\<lparr>requests := requests w @ [url]\<rparr>, Some (CouldNotConnectStatus (StatusCode resp)))"
  using assms by (simp add: DownloadCover_def http_Get_def)

lemma DownloadCover_transport:
  assumes "JoinUrl env (''https://'' @ Host source) (Url (Cover level)) = (url, None)"
      and "http_RoundTrip env url = Inl e"
  shows "DownloadCover env w source level destPath =
           (w\<lparr>requests := requests w @ [url]\<rparr>, Some (CouldNotConnectJa e))"
  using assms by (simp add: DownloadCover_def http_Get_def)

lemma DownloadBackground_status:
  assumes "JoinUrl env (''https://'' @ Host source) (Url (Image (Item (UseBackground level)))) =
             (url, join_err)"
      and "http_RoundTrip env url = Inr resp"
      and "StatusCode resp \<noteq> 200"
  shows "DownloadBackground env w source level destPath =
           (w\<lparr>requests := requests w @ [url]\<rparr>, Some (BackgroundNotFound (StatusCode resp)))"
  using assms by (simp add: DownloadBackground_def http_Get_def)

lemma DownloadBackground_transport:
  assumes "JoinUrl env (''https://'' @ Host source) (Url (Image (Item (UseBackground level)))) =
             (url, join_err)"
      and "http_RoundTrip env url = Inl e"
  shows "DownloadBackground env w source level destPath =
           (w\<lparr>requests := requests w @ [url]\<rparr>, Some (CouldNotConnectErr e))"
  using assms by (simp add: DownloadBackground_def http_Get_def)

text \<open>
  A relative URL that \<open>JoinUrl\<close> rejects: \<^verbatim>\<open>FetchLevelData\<close> and
  \<^verbatim>\<open>DownloadCover\<close> return before any request.
\<close>

lemma FetchLevelData_url_error:
  assumes "JoinUrl env (''https://'' @ Host source) (Url (Data level)) = (url, Some e)"
  shows "FetchLevelData env w source level = (w, LevelData_zero env, Some (UrlParsingFailed e))"
  using assms by (simp add: FetchLevelData_def)

lemma DownloadCover_url_error:
  assumes "JoinUrl env (''https://'' @ Host source) (Url (Cover level)) = (url, Some e)"
  shows "DownloadCover env w source level destPath = (w, Some (UrlParsingFailed e))"
  using assms by (simp add: DownloadCover_def)

text \<open>
  \<^verbatim>\<open>DownloadBackground\<close> issues its request to whatever string \<open>JoinUrl\<close>
  returned, also when \<open>JoinUrl\<close> returned an error.
\<close>

lemma DownloadBackground_requests:
  assumes "JoinUrl env (''https://'' @ Host source) (Url (Image (Item (UseBackground level)))) =
             (url, join_err)"
  shows "requests (fst (DownloadBackground env w source level destPath)) = requests w @ [url]"
  using assms
  by (simp add: DownloadBackground_def http_Get_def Let_def os_Create_def io_Copy_def
      file_Write_def split: sum.splits prod.splits option.splits)

text \<open>The file system operations.\<close>

lemma os_Create_ok:
  assumes "os_Create w p = (w2, None)"
  shows "w2 = w\<lparr>files := (files w)(p \<mapsto> [])\<rparr>"
  using assms by (simp add: os_Create_def split: if_splits)

lemma os_MkdirAll_ok:
  assumes "\<not> list_ex (isfile w) (prefixes p)"
  shows "os_MkdirAll w p perm =
           (w\<lparr>dirs := (\<lambda>q. if q \<noteq> [] \<and> prefix q p \<and> dirs w q = None then Some perm
                              else dirs w q)\<rparr>, None)"
  using assms by (simp add: os_MkdirAll_def)

lemma isdir_after_MkdirAll:
  assumes "\<not> list_ex (isfile w) (prefixes p)"
  shows "isdir (fst (os_MkdirAll w p perm)) p"
  using assms by (simp add: os_MkdirAll_def isdir_def)

lemma not_prefix_snoc: "\<not> prefix (d @ [n]) d"
  by (auto simp: prefix_def)

lemma os_Create_after_MkdirAll:
  assumes "\<not> list_ex (isfile w) (prefixes d)"
      and "\<not> isdir w (path_Join d name)"
  shows "os_Create (fst (os_MkdirAll w d perm)) (path_Join d name) =
           ((fst (os_MkdirAll w d perm))\<lparr>files := (files w)(path_Join d name \<mapsto> [])\<rparr>, None)"
  using assms
  by (simp add: os_MkdirAll_def os_Create_def isdir_def path_Join_def not_prefix_snoc)

text \<open>\<^verbatim>\<open>DownloadBackground\<close> creates no directory.\<close>

lemma DownloadBackground_dirs:
  "dirs (fst (DownloadBackground env w source level destPath)) = dirs w"
  by (simp add: DownloadBackground_def http_Get_def Let_def os_Create_def io_Copy_def
      file_Write_def split: sum.splits prod.splits option.splits)

section \<open>Source resolution: registered and unregistered prefixes\<close>

text \<open>
  Claim C1. An identifier that starts with a registered prefix (\<open>ptlv-\<close> or
  \<open>chcy-\<close>) resolves, with no error, to the registered entry, whose host is not
  empty: \<open>ptlv-\<close> gives id \<open>potato_leaves\<close> and host \<open>ptlv.sevenc7c.com\<close>,
  \<open>chcy-\<close> gives id \<open>chart_cyanvas\<close> and host \<open>cc.sevenc7c.com\<close>. An identifier
  with neither prefix resolves to the "unknown chart source" error and a Source whose
  id is the identifier itself and whose name and host are empty.
\<close>

theorem DetectChartSource_resolves:
  "(strings_HasPrefix chartId ''ptlv-'' \<longrightarrow>
      DetectChartSource chartId =
        (\<lparr>Id = ''potato_leaves'', Name = ''Potato Leaves'', Color = 0x88cb7f,
          Host = ''ptlv.sevenc7c.com''\<rparr>, None)) \<and>
   (strings_HasPrefix chartId ''chcy-'' \<longrightarrow>
      DetectChartSource chartId =
        (\<lparr>Id = ''chart_cyanvas'', Name = ''Chart Cyanvas'', Color = 0x83ccd2,
          Host = ''cc.sevenc7c.com''\<rparr>, None)) \<and>
   (strings_HasPrefix chartId ''ptlv-'' \<or> strings_HasPrefix chartId ''chcy-'' \<longrightarrow>
      snd (DetectChartSource chartId) = None \<and>
      Host (fst (DetectChartSource chartId)) \<noteq> []) \<and>
   (\<not> strings_HasPrefix chartId ''ptlv-'' \<and> \<not> strings_HasPrefix chartId ''chcy-'' \<longrightarrow>
      DetectChartSource chartId =
        (\<lparr>Id = chartId, Name = [], Color = 0, Host = []\<rparr>, Some UnknownChartSource))"
proof -
  have differ: "\<not> (strings_HasPrefix chartId ''ptlv-'' \<and> strings_HasPrefix chartId ''chcy-'')"
    by (auto simp: strings_HasPrefix_def)
  show ?thesis
    using differ by (auto simp: DetectChartSource_def Source_zero_def Let_def)
qed

theorem DetectChartSource_resolves_witness:
  "DetectChartSource ''ptlv-abc123'' =
     (\<lparr>Id = ''potato_leaves'', Name = ''Potato Leaves'', Color = 0x88cb7f,
       Host = ''ptlv.sevenc7c.com''\<rparr>, None) \<and>
   Host (fst (DetectChartSource ''ptlv-abc123'')) \<noteq> [] \<and>
   DetectChartSource ''chcy-7'' =
     (\<lparr>Id = ''chart_cyanvas'', Name = ''Chart Cyanvas'', Color = 0x83ccd2,
       Host = ''cc.sevenc7c.com''\<rparr>, None) \<and>
   DetectChartSource ''xyz-000'' =
     (\<lparr>Id = ''xyz-000'', Name = [], Color = 0, Host = []\<rparr>, Some UnknownChartSource)"
  using DetectChartSource_resolves [of "''ptlv-abc123''"]
        DetectChartSource_resolves [of "''chcy-7''"]
        DetectChartSource_resolves [of "''xyz-000''"]
  by (simp add: strings_HasPrefix_def)

section \<open>The cover is written as a 512 by 512 PNG\<close>

text \<open>
  Claim C2. When the cover is served with status 200 and decodes to an image
  \<open>imageData\<close>, of whatever bounds, \<^verbatim>\<open>DownloadCover\<close> builds the image \<open>m\<close>:
  a new RGBA image with bounds (0,0)-(512,512) whose pixels are those that
  \<^verbatim>\<open>draw.ApproxBiLinear.Scale\<close> writes when it scales the whole of \<open>imageData\<close>
  (its own bounds) onto the whole of the new image, so with no regard to the aspect
  ratio. \<open>m\<close> is 512 pixels wide and 512 high, and the file \<open>cover.png\<close> in the
  destination directory holds exactly the bytes \<^verbatim>\<open>png.Encode\<close> produces for
  \<open>m\<close>; the operation returns no error. The file system is assumed to let the file
  be created and written: no component of the destination path is a regular file,
  \<open>cover.png\<close> is not a directory there, and the device has room for the bytes.
\<close>

theorem DownloadCover_512:
  assumes "JoinUrl env (''https://'' @ Host source) (Url (Cover level)) = (url, None)"
      and "http_RoundTrip env url = Inr resp"
      and "StatusCode resp = 200"
      and "image_Decode env (Body resp) = Inr imageData"
      and "m = (image_NewRGBA (image_Rect 0 0 512 512))\<lparr>Pix :=
                 ApproxBiLinear_Scale env (image_NewRGBA (image_Rect 0 0 512 512))
                   (image_Rect 0 0 512 512) imageData (Bounds env imageData) Over\<rparr>"
      and "png_Encode env m = Inr bs"
      and "\<not> list_ex (isfile w) (prefixes destPath)"
      and "\<not> isdir w (path_Join destPath ''cover.png'')"
      and "length bs \<le> free w"
  shows "\<exists>w'. DownloadCover env w source level destPath = (w', None) \<and>
              files w' (path_Join destPath ''cover.png'') = Some bs \<and>
              Dx (Rect m) = 512 \<and> Dy (Rect m) = 512 \<and> isdir w' destPath"
proof -
  let ?w1 = "w\<lparr>requests := requests w @ [url]\<rparr>"
  let ?file = "path_Join destPath ''cover.png''"
  let ?w2 = "?w1\<lparr>dirs := (\<lambda>q. if q \<noteq> [] \<and> prefix q destPath \<and> dirs ?w1 q = None
                                 then Some 493 else dirs ?w1 q)\<rparr>"
  let ?w4 = "?w2\<lparr>files := (files w)(?file \<mapsto> bs), free := free w - length bs\<rparr>"
  have nofile: "\<not> list_ex (isfile ?w1) (prefixes destPath)"
    using assms(7) by (simp add: isfile_def list_ex_iff)
  have nodir: "\<not> isdir ?w1 ?file"
    using assms(8) by (simp add: isdir_def path_Join_def)
  have mk: "os_MkdirAll ?w1 destPath 493 = (?w2, None)"
    using os_MkdirAll_ok [OF nofile] .
  have create: "os_Create ?w2 ?file = (?w2\<lparr>files := (files w)(?file \<mapsto> [])\<rparr>, None)"
    using os_Create_after_MkdirAll [OF nofile nodir, of 493] by (simp add: mk)
  have enc: "png_Encode_to env (?w2\<lparr>files := (files w)(?file \<mapsto> [])\<rparr>) ?file m = (?w4, None)"
    using assms(6,9) by (simp add: png_Encode_to_def file_Write_def)
  have run: "DownloadCover env w source level destPath = (?w4, None)"
    unfolding DownloadCover_def http_Get_def Let_def
    using assms(1-4) assms(5) [symmetric] mk create enc
    by (simp add: image_NewRGBA_def)
  have dir: "isdir ?w4 destPath"
    using isdir_after_MkdirAll [OF nofile, of 493] by (simp add: mk isdir_def)
  have size: "Dx (Rect m) = 512 \<and> Dy (Rect m) = 512"
    using assms(5) by (simp add: image_NewRGBA_def image_Rect_def Dx_def Dy_def)
  have "files ?w4 ?file = Some bs"
    by simp
  then show ?thesis
    using run dir size by blast
qed

theorem DownloadCover_512_witness:
  "stub_image_Decode \<lparr>Content = [0, 100, 0, 50], ReadErr = None\<rparr> =
     Inr (image_NewRGBA (image_Rect 0 0 100 50)) \<and>
   snd (DownloadCover stub_env world0 ptlv stub_level [''out'', ''assets'']) = None \<and>
   files (fst (DownloadCover stub_env world0 ptlv stub_level [''out'', ''assets'']))
     [''out'', ''assets'', ''cover.png''] = Some [137, 80, 78, 71, 2, 0, 2, 0] \<and>
   stub_image_Decode \<lparr>Content = [3, 232, 3, 232], ReadErr = None\<rparr> =
     Inr (image_NewRGBA (image_Rect 0 0 1000 1000)) \<and>
   snd (DownloadCover stub_env world0 ptlv (stub_level\<lparr>Cover := \<lparr>Url = ''/big.png''\<rparr>\<rparr>)
          [''out'', ''assets'']) = None \<and>
   files (fst (DownloadCover stub_env world0 ptlv (stub_level\<lparr>Cover := \<lparr>Url = ''/big.png''\<rparr>\<rparr>)
                 [''out'', ''assets'']))
     [''out'', ''assets'', ''cover.png''] = Some [137, 80, 78, 71, 2, 0, 2, 0]"
  using DownloadCover_512
     [of stub_env ptlv stub_level "''https://ptlv.sevenc7c.com/cover.png''"
      "\<lparr>StatusCode = 200, Body = \<lparr>Content = [0, 100, 0, 50], ReadErr = None\<rparr>\<rparr>"
      "image_NewRGBA (image_Rect 0 0 100 50)"
      "image_NewRGBA (image_Rect 0 0 512 512)"
      "[137, 80, 78, 71, 2, 0, 2, 0]" world0 "[''out'', ''assets'']"]
    DownloadCover_512
     [of stub_env ptlv "stub_level\<lparr>Cover := \<lparr>Url = ''/big.png''\<rparr>\<rparr>"
      "''https://ptlv.sevenc7c.com/big.png''"
      "\<lparr>StatusCode = 200, Body = \<lparr>Content = [3, 232, 3, 232], ReadErr = None\<rparr>\<rparr>"
      "image_NewRGBA (image_Rect 0 0 1000 1000)"
      "image_NewRGBA (image_Rect 0 0 512 512)"
      "[137, 80, 78, 71, 2, 0, 2, 0]" world0 "[''out'', ''assets'']"]
  by (auto simp: stub_env_def stub_RoundTrip_def stub_JoinUrl_def stub_level_def ptlv_def
      world0_def stub_image_Decode_def stub_png_Encode_def image_NewRGBA_def image_Rect_def
      Dx_def Dy_def isfile_def isdir_def path_Join_def)

section \<open>Level data: decompress, then decode\<close>

text \<open>
  Claim C3. Let \<open>compress\<close> and \<open>marshal\<close> be a gzip compressor and a JSON
  serialiser that the library's \<^verbatim>\<open>gzip.NewReader\<close> and \<^verbatim>\<open>json.Decoder\<close> invert.
  When the level data URL is served with status 200 and the body is
  \<open>compress (marshal d)\<close>, \<^verbatim>\<open>FetchLevelData\<close> returns \<open>d\<close> and no error, for every
  \<open>d\<close>. When the body of a 200 response is one that \<^verbatim>\<open>gzip.NewReader\<close> rejects,
  \<^verbatim>\<open>FetchLevelData\<close> returns the zero \<open>LevelData\<close> and the error "Loading chart
  data failed"; it returns the same error when the decompressed stream does not decode.
\<close>

theorem FetchLevelData_roundtrip:
  assumes "\<forall>bs. gzip_NewReader env \<lparr>Content = compress bs, ReadErr = None\<rparr> =
                  Inr \<lparr>Content = bs, ReadErr = None\<rparr>"
      and "\<forall>d. json_Decode_LevelData env \<lparr>Content = marshal d, ReadErr = None\<rparr> = Inr d"
      and "JoinUrl env (''https://'' @ Host source) (Url (Data level)) = (url, None)"
      and "http_RoundTrip env url = Inr resp"
      and "StatusCode resp = 200"
  shows "(Body resp = \<lparr>Content = compress (marshal d), ReadErr = None\<rparr> \<longrightarrow>
            FetchLevelData env w source level = (w\<lparr>requests := requests w @ [url]\<rparr>, d, None)) \<and>
         (gzip_NewReader env (Body resp) = Inl e \<longrightarrow>
            FetchLevelData env w source level =
              (w\<lparr>requests := requests w @ [url]\<rparr>, LevelData_zero env,
               Some (LoadingChartDataFailed e))) \<and>
         (gzip_NewReader env (Body resp) = Inr gzipReader \<and>
          json_Decode_LevelData env gzipReader = Inl e \<longrightarrow>
            FetchLevelData env w source level =
              (w\<lparr>requests := requests w @ [url]\<rparr>, LevelData_zero env,
               Some (LoadingChartDataFailed e)))"
  using assms by (simp add: FetchLevelData_def http_Get_def)

theorem FetchLevelData_roundtrip_witness:
  "FetchLevelData stub_env world0 ptlv stub_level =
     (world0\<lparr>requests := [''https://ptlv.sevenc7c.com/data.gz'']\<rparr>, [7, 9], None) \<and>
   FetchLevelData stub_env world0 ptlv (stub_level\<lparr>Data := \<lparr>Url = ''/sonolus/levels/ptlv-html''\<rparr>\<rparr>) =
     (world0\<lparr>requests := [''https://ptlv.sevenc7c.com/sonolus/levels/ptlv-html'']\<rparr>, [],
      Some (LoadingChartDataFailed ''invalid header''))"
  using FetchLevelData_roundtrip
     [of stub_env stub_gzip stub_json_Marshal ptlv stub_level
      "''https://ptlv.sevenc7c.com/data.gz''"
      "\<lparr>StatusCode = 200, Body = \<lparr>Content = [31, 139, 123, 7, 9], ReadErr = None\<rparr>\<rparr>"
      "[7, 9]" world0 "[]"]
    FetchLevelData_roundtrip
     [of stub_env stub_gzip stub_json_Marshal ptlv "stub_level\<lparr>Data := \<lparr>Url = ''/sonolus/levels/ptlv-html''\<rparr>\<rparr>"
      "''https://ptlv.sevenc7c.com/sonolus/levels/ptlv-html''"
      "\<lparr>StatusCode = 200, Body = \<lparr>Content = [60, 104, 49, 62], ReadErr = None\<rparr>\<rparr>"
      "[7, 9]" world0 "''invalid header''"]
  by (simp add: stub_env_def stub_RoundTrip_def stub_JoinUrl_def stub_level_def ptlv_def
      world0_def stub_gzip_def stub_json_Marshal_def stub_gzip_NewReader_def
      stub_json_Decode_LevelData_def strings_HasPrefix_def)

section \<open>The background is copied byte for byte\<close>

text \<open>
  Claim C4. When the background URL is served with status 200,
  \<^verbatim>\<open>DownloadBackground\<close> writes the bytes of the response body, unchanged, to the
  file \<open>background.png\<close> in the destination directory, and returns no error:
  afterwards the content of the file is the response body, and no other file has
  changed. The file is assumed to be created (\<^verbatim>\<open>os.Create\<close> succeeds) and the
  device to have room for the bytes.
\<close>

theorem DownloadBackground_verbatim:
  assumes "JoinUrl env (''https://'' @ Host source) (Url (Image (Item (UseBackground level)))) =
             (backgroundUrl, join_err)"
      and "http_RoundTrip env backgroundUrl = Inr resp"
      and "StatusCode resp = 200"
      and "os_Create (w\<lparr>requests := requests w @ [backgroundUrl]\<rparr>)
             (path_Join destPath ''background.png'') = (w2, None)"
      and "length (Content (Body resp)) \<le> free w"
  shows "DownloadBackground env w source level destPath =
           (w\<lparr>requests := requests w @ [backgroundUrl],
              files := (files w)(path_Join destPath ''background.png'' \<mapsto> Content (Body resp)),
              free := free w - length (Content (Body resp))\<rparr>, None)"
proof -
  have w2: "w2 = w\<lparr>requests := requests w @ [backgroundUrl],
                   files := (files w)(path_Join destPath ''background.png'' \<mapsto> [])\<rparr>"
    using os_Create_ok [OF assms(4)] by simp
  have "io_Copy w2 (path_Join destPath ''background.png'') (Body resp) =
          (w\<lparr>requests := requests w @ [backgroundUrl],
              files := (files w)(path_Join destPath ''background.png'' \<mapsto> Content (Body resp)),
              free := free w - length (Content (Body resp))\<rparr>, ReadErr (Body resp))"
    using assms(5) by (simp add: w2 io_Copy_def file_Write_def)
  then show ?thesis
    using assms(1-4) by (simp add: DownloadBackground_def http_Get_def Let_def)
qed

theorem DownloadBackground_verbatim_witness:
  "DownloadBackground stub_env world_out ptlv stub_level [''out''] =
     (world_out\<lparr>requests := [''https://ptlv.sevenc7c.com/bg.png''],
                 files := [[''out'', ''background.png''] \<mapsto> [1, 2, 3]], free := 997\<rparr>, None)"
  using DownloadBackground_verbatim
     [of stub_env ptlv stub_level "''https://ptlv.sevenc7c.com/bg.png''" None
      "\<lparr>StatusCode = 200, Body = \<lparr>Content = [1, 2, 3], ReadErr = None\<rparr>\<rparr>"
      world_out "[''out'']"
      "world_out\<lparr>requests := [''https://ptlv.sevenc7c.com/bg.png''],
                 files := [[''out'', ''background.png''] \<mapsto> []]\<rparr>"]
  by (simp add: stub_env_def stub_RoundTrip_def stub_JoinUrl_def stub_level_def ptlv_def
      world_out_def os_Create_def isdir_def path_Join_def)

section \<open>Metadata: a status other than 200\<close>

text \<open>
  Claim C5. When the metadata URL is answered with a status other than 200 (404, for
  one), \<^verbatim>\<open>FetchChart\<close> returns the zero \<open>LevelInfo\<close> and the error "Unable to
  search chart" (the chart was not found). The response body is not read: the result
  is the same for every body and for every JSON decoder.
\<close>

theorem FetchChart_not_found:
  assumes "url = ''https://'' @ Host source @ ''/sonolus/levels/'' @ chartId"
      and "http_RoundTrip env url = Inr resp"
      and "StatusCode resp \<noteq> 200"
  shows "FetchChart env w source chartId =
           (w\<lparr>requests := requests w @ [url]\<rparr>, LevelInfo_zero, Some UnableToSearchChart) \<and>
         is_NotFound UnableToSearchChart \<and>
         FetchChart
           (env\<lparr>http_RoundTrip := (\<lambda>u. if u = url then Inr (resp\<lparr>Body := b\<rparr>)
                                         else http_RoundTrip env u),
                 json_Decode_InfoResponse := dec\<rparr>) w source chartId =
           FetchChart env w source chartId"
  using assms by (simp add: FetchChart_def http_Get_def Let_def is_NotFound_def)

theorem FetchChart_not_found_witness:
  "FetchChart stub_env world0 ptlv ''ptlv-nope'' =
     (world0\<lparr>requests := [''https://ptlv.sevenc7c.com/sonolus/levels/ptlv-nope'']\<rparr>,
      LevelInfo_zero, Some UnableToSearchChart)"
  using FetchChart_not_found [of "''https://ptlv.sevenc7c.com/sonolus/levels/ptlv-nope''"
      ptlv "''ptlv-nope''" stub_env
      "\<lparr>StatusCode = 404, Body = \<lparr>Content = [110, 111], ReadErr = None\<rparr>\<rparr>" world0]
  by (simp add: stub_env_def stub_RoundTrip_def ptlv_def world0_def strings_HasPrefix_def)

section \<open>A malformed background URL\<close>

text \<open>
  Claim C6 says that every operation fails with a URL-parsing error, before any
  request, when the relative URL is malformed. \<^verbatim>\<open>FetchLevelData\<close> and
  \<^verbatim>\<open>DownloadCover\<close> do (\<open>FetchLevelData_url_error\<close>, \<open>DownloadCover_url_error\<close>).
  \<^verbatim>\<open>DownloadBackground\<close> does not: for a background URL that \<open>JoinUrl\<close>
  rejects, it issues a GET for the string \<open>JoinUrl\<close> returned with the error (the
  empty string, for the stub) and reports that request's failure, "Could not connect
  to server".
\<close>

theorem DownloadBackground_malformed_url:
  "stub_JoinUrl ''https://ptlv.sevenc7c.com'' ''/%zz.png'' = ([], Some ''invalid URL escape'') \<and>
   DownloadBackground stub_env world_out ptlv
       (stub_level\<lparr>UseBackground := \<lparr>Item = \<lparr>Image = \<lparr>Url = ''/%zz.png''\<rparr>\<rparr>\<rparr>\<rparr>) [''out''] =
     (world_out\<lparr>requests := [[]]\<rparr>, Some (CouldNotConnectErr ''no such host''))"
  by (simp add: DownloadBackground_def http_Get_def stub_env_def stub_RoundTrip_def
      stub_JoinUrl_def stub_level_def ptlv_def world_out_def strings_HasPrefix_def)

section \<open>A failed request writes nothing\<close>

text \<open>
  Claim C7, as amended. For each of the four requests, a response with a status other
  than 200 gives an error that reports it and a transport failure gives a "could not
  connect" error; in both cases the only change to the world is the record of the
  request, so no file and no directory is created or changed. The error for a status
  other than 200 is a not-found error for the metadata ("Unable to search chart"), the
  level data ("No chart data found", with the status) and the background ("Background
  not found", with the status); for the cover it is the error "Could not connect to
  server" with the status.
\<close>

theorem failed_request_writes_nothing:
  "(\<forall>resp. http_RoundTrip env (''https://'' @ Host source @ ''/sonolus/levels/'' @ chartId) =
             Inr resp \<and> StatusCode resp \<noteq> 200 \<longrightarrow>
      FetchChart env w source chartId =
        (w\<lparr>requests := requests w @
              [''https://'' @ Host source @ ''/sonolus/levels/'' @ chartId]\<rparr>,
         LevelInfo_zero, Some UnableToSearchChart)) \<and>
   (\<forall>e. http_RoundTrip env (''https://'' @ Host source @ ''/sonolus/levels/'' @ chartId) =
          Inl e \<longrightarrow>
      FetchChart env w source chartId =
        (w\<lparr>requests := requests w @
              [''https://'' @ Host source @ ''/sonolus/levels/'' @ chartId]\<rparr>,
         LevelInfo_zero, Some CouldNotConnect)) \<and>
   (\<forall>url resp. JoinUrl env (''https://'' @ Host source) (Url (Data level)) = (url, None) \<and>
        http_RoundTrip env url = Inr resp \<and> StatusCode resp \<noteq> 200 \<longrightarrow>
      FetchLevelData env w source level =
        (w\<lparr>requests := requests w @ [url]\<rparr>, LevelData_zero env,
         Some (NoChartDataFound (StatusCode resp)))) \<and>
   (\<forall>url e. JoinUrl env (''https://'' @ Host source) (Url (Data level)) = (url, None) \<and>
        http_RoundTrip env url = Inl e \<longrightarrow>
      FetchLevelData env w source level =
        (w\<lparr>requests := requests w @ [url]\<rparr>, LevelData_zero env,
         Some (CouldNotConnectErr e))) \<and>
   (\<forall>url resp. JoinUrl env (''https://'' @ Host source) (Url (Cover level)) = (url, None) \<and>
        http_RoundTrip env url = Inr resp \<and> StatusCode resp \<noteq> 200 \<longrightarrow>
      DownloadCover env w source level destPath =
        (w\<lparr>requests := requests w @ [url]\<rparr>,
         Some (CouldNotConnectStatus (StatusCode resp)))) \<and>
   (\<forall>url e. JoinUrl env (''https://'' @ Host source) (Url (Cover level)) = (url, None) \<and>
        http_RoundTrip env url = Inl e \<longrightarrow>
      DownloadCover env w source level destPath =
        (w\<lparr>requests := requests w @ [url]\<rparr>, Some (CouldNotConnectJa e))) \<and>
   (\<forall>url join_err resp.
        JoinUrl env (''https://'' @ Host source) (Url (Image (Item (UseBackground level)))) =
          (url, join_err) \<and>
        http_RoundTrip env url = Inr resp \<and> StatusCode resp \<noteq> 200 \<longrightarrow>
      DownloadBackground env w source level destPath =
        (w\<lparr>requests := requests w @ [url]\<rparr>,
         Some (BackgroundNotFound (StatusCode resp)))) \<and>
   (\<forall>url join_err e.
        JoinUrl env (''https://'' @ Host source) (Url (Image (Item (UseBackground level)))) =
          (url, join_err) \<and>
        http_RoundTrip env url = Inl e \<longrightarrow>
      DownloadBackground env w source level destPath =
        (w\<lparr>requests := requests w @ [url]\<rparr>, Some (CouldNotConnectErr e))) \<and>
   (\<forall>url. files (w\<lparr>requests := requests w @ [url]\<rparr>) = files w \<and>
          dirs (w\<lparr>requests := requests w @ [url]\<rparr>) = dirs w) \<and>
   is_NotFound UnableToSearchChart \<and>
   (\<forall>n. is_NotFound (NoChartDataFound n) \<and> is_NotFound (BackgroundNotFound n))"
  using FetchChart_status [of env source chartId _ w]
    FetchChart_transport [of env source chartId _ w]
    FetchLevelData_status [of env source level _ _ w]
    FetchLevelData_transport [of env source level _ _ w]
    DownloadCover_status [of env source level _ _ w destPath]
    DownloadCover_transport [of env source level _ _ w destPath]
    DownloadBackground_status [of env source level _ _ _ w destPath]
    DownloadBackground_transport [of env source level _ _ _ w destPath]
  by (simp add: is_NotFound_def)

theorem failed_request_writes_nothing_witness:
  "FetchChart stub_env world_out ptlv ''ptlv-nope'' =
     (world_out\<lparr>requests := [''https://ptlv.sevenc7c.com/sonolus/levels/ptlv-nope'']\<rparr>,
      LevelInfo_zero, Some UnableToSearchChart) \<and>
   FetchLevelData stub_env world_out ptlv
       \<lparr>Data = \<lparr>Url = ''/a''\<rparr>, Cover = \<lparr>Url = ''/b''\<rparr>,
        UseBackground = \<lparr>Item = \<lparr>Image = \<lparr>Url = ''/c''\<rparr>\<rparr>\<rparr>\<rparr> =
     (world_out\<lparr>requests := [''https://ptlv.sevenc7c.com/a'']\<rparr>, [],
      Some (NoChartDataFound 404)) \<and>
   DownloadCover stub_env world_out ptlv
       \<lparr>Data = \<lparr>Url = ''/a''\<rparr>, Cover = \<lparr>Url = ''/b''\<rparr>,
        UseBackground = \<lparr>Item = \<lparr>Image = \<lparr>Url = ''/c''\<rparr>\<rparr>\<rparr>\<rparr> [''out''] =
     (world_out\<lparr>requests := [''https://ptlv.sevenc7c.com/b'']\<rparr>,
      Some (CouldNotConnectStatus 404)) \<and>
   DownloadBackground stub_env world_out ptlv
       \<lparr>Data = \<lparr>Url = ''/a''\<rparr>, Cover = \<lparr>Url = ''/b''\<rparr>,
        UseBackground = \<lparr>Item = \<lparr>Image = \<lparr>Url = ''/c''\<rparr>\<rparr>\<rparr>\<rparr> [''out''] =
     (world_out\<lparr>requests := [''https://ptlv.sevenc7c.com/c'']\<rparr>,
      Some (BackgroundNotFound 404)) \<and>
   DownloadCover stub_env world_out (ptlv\<lparr>Host := ''down.example''\<rparr>)
       \<lparr>Data = \<lparr>Url = ''/a''\<rparr>, Cover = \<lparr>Url = ''/b''\<rparr>,
        UseBackground = \<lparr>Item = \<lparr>Image = \<lparr>Url = ''/c''\<rparr>\<rparr>\<rparr>\<rparr> [''out''] =
     (world_out\<lparr>requests := [''https://down.example/b'']\<rparr>,
      Some (CouldNotConnectJa ''no such host''))"
  using failed_request_writes_nothing
     [of stub_env ptlv "''ptlv-nope''" world_out
      "\<lparr>Data = \<lparr>Url = ''/a''\<rparr>, Cover = \<lparr>Url = ''/b''\<rparr>,
        UseBackground = \<lparr>Item = \<lparr>Image = \<lparr>Url = ''/c''\<rparr>\<rparr>\<rparr>\<rparr>" "[''out'']"]
    failed_request_writes_nothing
     [of stub_env "ptlv\<lparr>Host := ''down.example''\<rparr>" "''ptlv-nope''" world_out
      "\<lparr>Data = \<lparr>Url = ''/a''\<rparr>, Cover = \<lparr>Url = ''/b''\<rparr>,
        UseBackground = \<lparr>Item = \<lparr>Image = \<lparr>Url = ''/c''\<rparr>\<rparr>\<rparr>\<rparr>" "[''out'']"]
  by (simp add: stub_env_def stub_RoundTrip_def stub_JoinUrl_def ptlv_def world_out_def
      strings_HasPrefix_def)

text \<open>
  Claim C7 as it is written fails for the cover: a 404 for the cover gives the error
  "Could not connect to server. [404]", which is not a not-found error.
\<close>

theorem cover_404_is_not_NotFound:
  "DownloadCover stub_env world_out ptlv (stub_level\<lparr>Cover := \<lparr>Url = ''/gone.png''\<rparr>\<rparr>) [''out''] =
     (world_out\<lparr>requests := [''https://ptlv.sevenc7c.com/gone.png'']\<rparr>,
      Some (CouldNotConnectStatus 404)) \<and>
   \<not> is_NotFound (CouldNotConnectStatus 404)"
  by (simp add: DownloadCover_def http_Get_def stub_env_def stub_RoundTrip_def stub_JoinUrl_def
      stub_level_def ptlv_def world_out_def strings_HasPrefix_def is_NotFound_def)

section \<open>The destination directory\<close>

text \<open>
  Claim C8 says that both asset operations create the destination directory, with
  its parents, before they write. \<^verbatim>\<open>DownloadCover\<close> does, with
  \<^verbatim>\<open>os.MkdirAll(destPath, 0755)\<close>. \<^verbatim>\<open>DownloadBackground\<close> has no such call
  (\<open>DownloadBackground_dirs\<close>): in a world where the directory \<open>out\<close> does not
  exist, with the background served with status 200, it fails with "Failed to create
  file" and creates neither the directory nor the file, where \<^verbatim>\<open>DownloadCover\<close>
  creates the directory and writes its file.
\<close>

theorem DownloadBackground_missing_directory:
  "DownloadBackground stub_env world0 ptlv stub_level [''out''] =
     (world0\<lparr>requests := [''https://ptlv.sevenc7c.com/bg.png'']\<rparr>,
      Some (FailedToCreateFile ''no such file or directory'')) \<and>
   snd (DownloadCover stub_env world0 ptlv stub_level [''out'']) = None \<and>
   dirs (fst (DownloadCover stub_env world0 ptlv stub_level [''out''])) [''out''] = Some 493 \<and>
   files (fst (DownloadCover stub_env world0 ptlv stub_level [''out''])) [''out'', ''cover.png''] =
     Some [137, 80, 78, 71, 2, 0, 2, 0]"
  by (simp add: DownloadBackground_def DownloadCover_def http_Get_def stub_env_def
      stub_RoundTrip_def stub_JoinUrl_def stub_level_def ptlv_def world0_def
      os_Create_def os_MkdirAll_def isdir_def isfile_def path_Join_def
      stub_image_Decode_def stub_png_Encode_def png_Encode_to_def file_Write_def
      image_NewRGBA_def image_Rect_def Dx_def Dy_def)

section \<open>Metadata: the decoder's error is dropped\<close>

text \<open>
  Claim C9. When the metadata URL is answered with status 200, \<^verbatim>\<open>FetchChart\<close>
  returns no error and the \<open>LevelInfo\<close> the JSON decoder left in the envelope's item,
  whatever error the decoder reported: for a body that is not valid JSON the error of
  \<^verbatim>\<open>Decode\<close> does not reach the caller.
\<close>

theorem FetchChart_decode_error_not_surfaced:
  assumes "url = ''https://'' @ Host source @ ''/sonolus/levels/'' @ chartId"
      and "http_RoundTrip env url = Inr resp"
      and "StatusCode resp = 200"
      and "json_Decode_InfoResponse env (Body resp) = (item, decode_err)"
  shows "FetchChart env w source chartId = (w\<lparr>requests := requests w @ [url]\<rparr>, item, None)"
  using assms by (simp add: FetchChart_def http_Get_def Let_def)

theorem FetchChart_decode_error_not_surfaced_witness:
  "stub_json_Decode_InfoResponse \<lparr>Content = [60, 104, 49, 62], ReadErr = None\<rparr> =
     (LevelInfo_zero, Some ''invalid character'') \<and>
   FetchChart stub_env world0 ptlv ''ptlv-html'' =
     (world0\<lparr>requests := [''https://ptlv.sevenc7c.com/sonolus/levels/ptlv-html'']\<rparr>,
      LevelInfo_zero, None)"
  using FetchChart_decode_error_not_surfaced
     [of "''https://ptlv.sevenc7c.com/sonolus/levels/ptlv-html''" ptlv "''ptlv-html''" stub_env
      "\<lparr>StatusCode = 200, Body = \<lparr>Content = [60, 104, 49, 62], ReadErr = None\<rparr>\<rparr>"
      LevelInfo_zero "Some ''invalid character''" world0]
  by (simp add: stub_env_def stub_RoundTrip_def ptlv_def world0_def
      stub_json_Decode_InfoResponse_def)

section \<open>The background: the result of the copy is not checked\<close>

text \<open>
  Claim C10. In \<^verbatim>\<open>DownloadBackground\<close> the test after \<^verbatim>\<open>io.Copy\<close> reads the
  variable that holds the error of \<^verbatim>\<open>os.Create\<close>, which is nil there, and not the
  result of the copy. So whenever the status is 200 and the file is created,
  \<^verbatim>\<open>DownloadBackground\<close> returns no error, whatever error the copy returned, and
  leaves the file as the copy left it.
\<close>

theorem DownloadBackground_stale_error_check:
  assumes "JoinUrl env (''https://'' @ Host source) (Url (Image (Item (UseBackground level)))) =
             (backgroundUrl, join_err)"
      and "http_RoundTrip env backgroundUrl = Inr resp"
      and "StatusCode resp = 200"
      and "os_Create (w\<lparr>requests := requests w @ [backgroundUrl]\<rparr>)
             (path_Join destPath ''background.png'') = (w2, None)"
      and "io_Copy w2 (path_Join destPath ''background.png'') (Body resp) = (w3, copy_err)"
  shows "DownloadBackground env w source level destPath = (w3, None)"
  using assms by (simp add: DownloadBackground_def http_Get_def Let_def)

theorem DownloadBackground_stale_error_check_witness:
  "io_Copy (world_out\<lparr>requests := [''https://ptlv.sevenc7c.com/bg.png''],
                       files := [[''out'', ''background.png''] \<mapsto> []], free := 2\<rparr>)
     [''out'', ''background.png''] \<lparr>Content = [1, 2, 3], ReadErr = None\<rparr> =
     (world_out\<lparr>requests := [''https://ptlv.sevenc7c.com/bg.png''],
                 files := [[''out'', ''background.png''] \<mapsto> [1, 2]], free := 0\<rparr>,
      Some ''no space left on device'') \<and>
   DownloadBackground stub_env (world_out\<lparr>free := 2\<rparr>) ptlv stub_level [''out''] =
     (world_out\<lparr>requests := [''https://ptlv.sevenc7c.com/bg.png''],
                 files := [[''out'', ''background.png''] \<mapsto> [1, 2]], free := 0\<rparr>, None)"
  using DownloadBackground_stale_error_check
     [of stub_env ptlv stub_level "''https://ptlv.sevenc7c.com/bg.png''" None
      "\<lparr>StatusCode = 200, Body = \<lparr>Content = [1, 2, 3], ReadErr = None\<rparr>\<rparr>"
      "world_out\<lparr>free := 2\<rparr>" "[''out'']"
      "world_out\<lparr>requests := [''https://ptlv.sevenc7c.com/bg.png''],
                 files := [[''out'', ''background.png''] \<mapsto> []], free := 2\<rparr>"
      "world_out\<lparr>requests := [''https://ptlv.sevenc7c.com/bg.png''],
                 files := [[''out'', ''background.png''] \<mapsto> [1, 2]], free := 0\<rparr>"
      "Some ''no space left on device''"]
  by (simp add: stub_env_def stub_RoundTrip_def stub_JoinUrl_def stub_level_def ptlv_def
      world_out_def os_Create_def isdir_def path_Join_def io_Copy_def file_Write_def)

end
